theory Spec2Isabelle
  imports Complex_Main
begin

section \<open>Email Newsletter Writer: the server actions over the three tables\<close>

text \<open>
  A shallow embedding of the actions file (\<^verbatim>\<open>export const server = { ... }\<close>) and of
  \<^verbatim>\<open>src/db/tables.ts\<close>. The database is an explicit state that every action takes and
  returns; a thrown error is the left summand of the result, and the state is returned
  with it, so that what a failing action did to the store before it threw is visible.
\<close>

subsection \<open>Rows (src/db/tables.ts)\<close>

text \<open>
  \<^verbatim>\<open>column.text()\<close> is a string, an \<^verbatim>\<open>optional: true\<close> column is nullable (an option),
  \<^verbatim>\<open>column.date\<close> is an instant (milliseconds since the epoch) and \<^verbatim>\<open>column.number\<close> a
  finite JavaScript number, a real. Numbers and dates are only stored and handed back by this program,
  never computed with; \<^verbatim>\<open>orderIndex\<close> passes \<^verbatim>\<open>z.number().int()\<close> and is an integer.
  Neither schema bounds the number it accepts.
\<close>

type_synonym date = int
type_synonym number = real

record campaign =
  c_id :: string
  c_userId :: string
  c_name :: string
  c_description :: "string option"
  c_audienceDescription :: "string option"
  c_senderName :: "string option"
  c_senderEmail :: "string option"
  c_defaultLanguage :: "string option"
  c_createdAt :: date
  c_updatedAt :: date

record issue =
  i_id :: string
  i_campaignId :: string
  i_userId :: string
  i_issueNumber :: "number option"
  i_subjectLine :: string
  i_preheaderText :: "string option"
  i_status :: "string option"
  i_scheduledAt :: "date option"
  i_sentAt :: "date option"
  i_createdAt :: date
  i_updatedAt :: date

record block =
  b_id :: string
  b_issueId :: string
  b_orderIndex :: int
  b_blockType :: "string option"
  b_heading :: "string option"
  b_body :: "string option"
  b_ctaLabel :: "string option"
  b_ctaUrl :: "string option"
  b_imageUrl :: "string option"
  b_metaJson :: "string option"
  b_createdAt :: date

text \<open>The store: the rows of each table, in insertion order.\<close>

record db =
  campaignRows :: "campaign list"
  issueRows :: "issue list"
  blockRows :: "block list"

text \<open>
  A \<^verbatim>\<open>column.number\<close> column stores an integer-valued number as an integer, and the
  database driver hands a stored integer back as a JavaScript number only when it is a
  safe integer: reading one of magnitude \<open>2 ^ 53\<close> or more throws a RangeError. Writing it
  does not. Text and date columns are read back as they were written.
\<close>

definition unsafe_integer :: "number \<Rightarrow> bool" where
  "unsafe_integer x = (x \<in> \<int> \<and> 2 ^ 53 \<le> \<bar>x\<bar>)"

text \<open>The rows the driver can read back: every number column holds no unsafe integer.\<close>

definition campaign_readable :: "campaign \<Rightarrow> bool" where
  "campaign_readable r = True"

definition issue_readable :: "issue \<Rightarrow> bool" where
  "issue_readable r = (case i_issueNumber r of None \<Rightarrow> True | Some n \<Rightarrow> \<not> unsafe_integer n)"

definition block_readable :: "block \<Rightarrow> bool" where
  "block_readable r = (\<not> unsafe_integer (of_int (b_orderIndex r)))"

text \<open>
  A table as the statements below use it: how to read its rows, how to write them back,
  its \<^verbatim>\<open>primaryKey: true\<close> column, and which of its rows the driver can read back.
\<close>

record 'r table =
  rows :: "db \<Rightarrow> 'r list"
  put :: "'r list \<Rightarrow> db \<Rightarrow> db"
  primaryKey :: "'r \<Rightarrow> string"
  readable :: "'r \<Rightarrow> bool"

definition NewsletterCampaigns :: "campaign table" where
  "NewsletterCampaigns =
     \<lparr>rows = campaignRows, put = (\<lambda>rs d. d\<lparr>campaignRows := rs\<rparr>), primaryKey = c_id,
      readable = campaign_readable\<rparr>"

definition NewsletterIssues :: "issue table" where
  "NewsletterIssues =
     \<lparr>rows = issueRows, put = (\<lambda>rs d. d\<lparr>issueRows := rs\<rparr>), primaryKey = i_id,
      readable = issue_readable\<rparr>"

definition NewsletterBlocks :: "block table" where
  "NewsletterBlocks =
     \<lparr>rows = blockRows, put = (\<lambda>rs d. d\<lparr>blockRows := rs\<rparr>), primaryKey = b_id,
      readable = block_readable\<rparr>"

subsection \<open>Errors, results and sequencing\<close>

datatype error_code = UNAUTHORIZED | NOT_FOUND

text \<open>
  \<^verbatim>\<open>ActionError\<close> is what the handlers throw themselves. \<^verbatim>\<open>ActionInputError\<close> is what
  \<^verbatim>\<open>defineAction\<close> throws when the input does not parse against the action's schema.
  \<^verbatim>\<open>ConstraintError\<close> is the database refusing an insert whose primary key is taken, and
  \<^verbatim>\<open>RangeError\<close> the driver refusing to read an unsafe integer back. The handlers catch
  neither, so the action fails with it.
\<close>

datatype error =
  ActionError error_code string | ActionInputError | ConstraintError | RangeError

text \<open>The error of the guard, \<open>requireUser\<close> below.\<close>

abbreviation "unauthorized \<equiv> ActionError UNAUTHORIZED ''You must be signed in to perform this action.''"

text \<open>
  The value an action resolves to: \<^verbatim>\<open>{ success: true }\<close> is \<open>Reply True None\<close> and
  \<^verbatim>\<open>{ success: true, data: x }\<close> is \<open>Reply True (Some x)\<close>. Where the data is one row,
  \<^verbatim>\<open>{ campaign }\<close> say, \<open>x\<close> is the first row the statement returned, or \<open>None\<close> for
  \<^verbatim>\<open>undefined\<close> when it returned none.
\<close>

datatype 'a reply = Reply (success: bool) (data: "'a option")

record 'r listing =
  items :: "'r list"
  total :: nat

type_synonym 'a action = "db \<Rightarrow> (error + 'a) \<times> db"

definition throw_error :: "error \<Rightarrow> 'a action" where
  "throw_error e = (\<lambda>d. (Inl e, d))"

definition return_value :: "'a \<Rightarrow> 'a action" where
  "return_value x = (\<lambda>d. (Inr x, d))"

text \<open>\<^verbatim>\<open>const x = await m; f(x)\<close>: a rejected \<open>m\<close> ends the handler with its error.\<close>

definition await :: "'a action \<Rightarrow> ('a \<Rightarrow> 'b action) \<Rightarrow> 'b action" where
  "await m f = (\<lambda>d. case m d of (Inl e, d') \<Rightarrow> (Inl e, d') | (Inr x, d') \<Rightarrow> f x d')"

subsection \<open>The database statements\<close>

text \<open>
  \<^verbatim>\<open>db.select().from(t).where(p)\<close>: the rows that satisfy \<open>p\<close>, unless one of them cannot
  be read back, when the statement throws; the store is only read.
\<close>

definition select_from :: "'r table \<Rightarrow> ('r \<Rightarrow> bool) \<Rightarrow> 'r list action" where
  "select_from t p = (\<lambda>d.
     if list_all (readable t) (filter p (rows t d)) then (Inr (filter p (rows t d)), d)
     else (Inl RangeError, d))"

text \<open>
  \<^verbatim>\<open>db.insert(t).values(r).returning()\<close>: when the row's primary key is already in the
  table the statement throws and nothing is written. Otherwise the row is appended, and
  then returned; when it cannot be read back the statement throws after the write.
\<close>

definition insert_into :: "'r table \<Rightarrow> 'r \<Rightarrow> 'r list action" where
  "insert_into t r = (\<lambda>d.
     if primaryKey t r \<in> set (map (primaryKey t) (rows t d)) then (Inl ConstraintError, d)
     else if readable t r then (Inr [r], put t (rows t d @ [r]) d)
     else (Inl RangeError, put t (rows t d @ [r]) d))"

text \<open>
  \<^verbatim>\<open>db.update(t).set(s).where(p).returning()\<close>: every row that satisfies \<open>p\<close> is replaced
  by \<open>s\<close> applied to it, and then the updated rows are returned; when one of them cannot
  be read back the statement throws after the write.
\<close>

definition update_where :: "'r table \<Rightarrow> ('r \<Rightarrow> 'r) \<Rightarrow> ('r \<Rightarrow> bool) \<Rightarrow> 'r list action" where
  "update_where t s p = (\<lambda>d.
     (if list_all (readable t) (map s (filter p (rows t d)))
      then Inr (map s (filter p (rows t d))) else Inl RangeError,
      put t (map (\<lambda>r. if p r then s r else r) (rows t d)) d))"

text \<open>
  \<^verbatim>\<open>db.delete(t).where(p)\<close>: removes the rows that satisfy \<open>p\<close>; the result is
  \<^verbatim>\<open>rowsAffected\<close>, their number. No row is read back.
\<close>

definition delete_where :: "'r table \<Rightarrow> ('r \<Rightarrow> bool) \<Rightarrow> nat action" where
  "delete_where t p = (\<lambda>d.
     (Inr (length (filter p (rows t d))), put t (filter (\<lambda>r. \<not> p r) (rows t d)) d))"

text \<open>\<^verbatim>\<open>const [x] = rows\<close>: the first row, or \<^verbatim>\<open>undefined\<close> when there is none.\<close>

definition first_row :: "'r list \<Rightarrow> 'r option" where
  "first_row rs = (case rs of [] \<Rightarrow> None | r # _ \<Rightarrow> Some r)"

subsection \<open>The request context and the guard\<close>

record user =
  user_id :: string

record app_locals =
  user :: "user option"

record action_context =
  locals :: "app_locals option"

text \<open>What a handler reads from outside the store: \<^verbatim>\<open>crypto.randomUUID()\<close> and \<^verbatim>\<open>new Date()\<close>.\<close>

record env =
  randomUUID :: string
  now :: date

text \<open>\<^verbatim>\<open>locals?.user\<close>, where \<^verbatim>\<open>context.locals\<close> may be undefined.\<close>

definition locals_user :: "action_context \<Rightarrow> user option" where
  "locals_user ctx = (case locals ctx of None \<Rightarrow> None | Some l \<Rightarrow> user l)"

definition requireUser :: "action_context \<Rightarrow> user action" where
  "requireUser ctx =
     (case locals_user ctx of
        None \<Rightarrow>
          throw_error (ActionError UNAUTHORIZED ''You must be signed in to perform this action.'')
      | Some u \<Rightarrow> return_value u)"

definition getOwnedCampaign :: "string \<Rightarrow> string \<Rightarrow> campaign action" where
  "getOwnedCampaign campaignId userId =
     await (select_from NewsletterCampaigns (\<lambda>r. c_id r = campaignId \<and> c_userId r = userId))
       (\<lambda>found. case first_row found of
          None \<Rightarrow> throw_error (ActionError NOT_FOUND ''Campaign not found.'')
        | Some c \<Rightarrow> return_value c)"

definition getOwnedIssue :: "string \<Rightarrow> string \<Rightarrow> issue action" where
  "getOwnedIssue issueId userId =
     await (select_from NewsletterIssues (\<lambda>r. i_id r = issueId \<and> i_userId r = userId))
       (\<lambda>found. case first_row found of
          None \<Rightarrow> throw_error (ActionError NOT_FOUND ''Newsletter issue not found.'')
        | Some i \<Rightarrow> return_value i)"

subsection \<open>defineAction\<close>

text \<open>
  \<^verbatim>\<open>defineAction({ input, handler })\<close> parses the request's input against the schema
  \<^verbatim>\<open>input\<close> first; when the parse fails it throws the input error and the handler is
  not run. A schema is the predicate it accepts: \<^verbatim>\<open>z.string().min(1)\<close> is \<open>min1\<close>, an
  \<^verbatim>\<open>.optional()\<close> field is an option, which may be \<open>None\<close>.
\<close>

definition defineAction ::
  "('i \<Rightarrow> bool) \<Rightarrow> ('i \<Rightarrow> action_context \<Rightarrow> env \<Rightarrow> 'a action) \<Rightarrow>
   'i \<Rightarrow> action_context \<Rightarrow> env \<Rightarrow> 'a action" where
  "defineAction input handler i ctx e =
     (if input i then handler i ctx e else throw_error ActionInputError)"

definition min1 :: "string \<Rightarrow> bool" where
  "min1 s = (1 \<le> length s)"

definition optional :: "('a \<Rightarrow> bool) \<Rightarrow> 'a option \<Rightarrow> bool" where
  "optional p x = (case x of None \<Rightarrow> True | Some v \<Rightarrow> p v)"

text \<open>
  \<^verbatim>\<open>...(x !== undefined ? { col: x } : {})\<close> inside \<^verbatim>\<open>.set({ ... })\<close>: the column is
  assigned when the input has the field and is not mentioned otherwise. \<open>patch\<close> is for
  a required column, \<open>patch_opt\<close> for a nullable one. The update schemas let the handler
  run only when at least one field is present.
\<close>

definition patch :: "'a option \<Rightarrow> 'a \<Rightarrow> 'a" where
  "patch x old = (case x of None \<Rightarrow> old | Some v \<Rightarrow> v)"

definition patch_opt :: "'a option \<Rightarrow> 'a option \<Rightarrow> 'a option" where
  "patch_opt x old = (case x of None \<Rightarrow> old | Some v \<Rightarrow> Some v)"

subsection \<open>Campaign actions\<close>

record createCampaign_input =
  cc_name :: string
  cc_description :: "string option"
  cc_audienceDescription :: "string option"
  cc_senderName :: "string option"
  cc_senderEmail :: "string option"
  cc_defaultLanguage :: "string option"

definition createCampaign_schema :: "createCampaign_input \<Rightarrow> bool" where
  "createCampaign_schema i = min1 (cc_name i)"

definition createCampaign_handler ::
  "createCampaign_input \<Rightarrow> action_context \<Rightarrow> env \<Rightarrow> campaign option reply action" where
  "createCampaign_handler i ctx e =
     await (requireUser ctx) (\<lambda>u.
     await (insert_into NewsletterCampaigns
        \<lparr>c_id = randomUUID e,
         c_userId = user_id u,
         c_name = cc_name i,
         c_description = cc_description i,
         c_audienceDescription = cc_audienceDescription i,
         c_senderName = cc_senderName i,
         c_senderEmail = cc_senderEmail i,
         c_defaultLanguage = cc_defaultLanguage i,
         c_createdAt = now e,
         c_updatedAt = now e\<rparr>) (\<lambda>returned.
     return_value (Reply True (Some (first_row returned)))))"

definition createCampaign ::
  "createCampaign_input \<Rightarrow> action_context \<Rightarrow> env \<Rightarrow> campaign option reply action" where
  "createCampaign = defineAction createCampaign_schema createCampaign_handler"

record updateCampaign_input =
  uc_id :: string
  uc_name :: "string option"
  uc_description :: "string option"
  uc_audienceDescription :: "string option"
  uc_senderName :: "string option"
  uc_senderEmail :: "string option"
  uc_defaultLanguage :: "string option"

definition updateCampaign_schema :: "updateCampaign_input \<Rightarrow> bool" where
  "updateCampaign_schema i =
     ((min1 (uc_id i) \<and> optional min1 (uc_name i)) \<and>
      (uc_name i \<noteq> None \<or> uc_description i \<noteq> None \<or> uc_audienceDescription i \<noteq> None \<or>
       uc_senderName i \<noteq> None \<or> uc_senderEmail i \<noteq> None \<or> uc_defaultLanguage i \<noteq> None))"

definition updateCampaign_set :: "updateCampaign_input \<Rightarrow> env \<Rightarrow> campaign \<Rightarrow> campaign" where
  "updateCampaign_set i e r =
     r\<lparr>c_name := patch (uc_name i) (c_name r),
       c_description := patch_opt (uc_description i) (c_description r),
       c_audienceDescription := patch_opt (uc_audienceDescription i) (c_audienceDescription r),
       c_senderName := patch_opt (uc_senderName i) (c_senderName r),
       c_senderEmail := patch_opt (uc_senderEmail i) (c_senderEmail r),
       c_defaultLanguage := patch_opt (uc_defaultLanguage i) (c_defaultLanguage r),
       c_updatedAt := now e\<rparr>"

definition updateCampaign_handler ::
  "updateCampaign_input \<Rightarrow> action_context \<Rightarrow> env \<Rightarrow> campaign option reply action" where
  "updateCampaign_handler i ctx e =
     await (requireUser ctx) (\<lambda>u.
     await (getOwnedCampaign (uc_id i) (user_id u)) (\<lambda>_.
     await (update_where NewsletterCampaigns (updateCampaign_set i e) (\<lambda>r. c_id r = uc_id i))
       (\<lambda>returned.
     return_value (Reply True (Some (first_row returned))))))"

definition updateCampaign ::
  "updateCampaign_input \<Rightarrow> action_context \<Rightarrow> env \<Rightarrow> campaign option reply action" where
  "updateCampaign = defineAction updateCampaign_schema updateCampaign_handler"

text \<open>\<^verbatim>\<open>z.object({}).optional()\<close>: the input has no field and may be absent.\<close>

definition listCampaigns_schema :: "unit option \<Rightarrow> bool" where
  "listCampaigns_schema i = True"

definition listCampaigns_handler ::
  "unit option \<Rightarrow> action_context \<Rightarrow> env \<Rightarrow> campaign listing reply action" where
  "listCampaigns_handler i ctx e =
     await (requireUser ctx) (\<lambda>u.
     await (select_from NewsletterCampaigns (\<lambda>r. c_userId r = user_id u)) (\<lambda>campaigns.
     return_value (Reply True (Some \<lparr>items = campaigns, total = length campaigns\<rparr>))))"

definition listCampaigns ::
  "unit option \<Rightarrow> action_context \<Rightarrow> env \<Rightarrow> campaign listing reply action" where
  "listCampaigns = defineAction listCampaigns_schema listCampaigns_handler"

subsection \<open>Issue actions\<close>

record createIssue_input =
  ci_campaignId :: string
  ci_issueNumber :: "number option"
  ci_subjectLine :: string
  ci_preheaderText :: "string option"
  ci_status :: "string option"
  ci_scheduledAt :: "date option"
  ci_sentAt :: "date option"

definition createIssue_schema :: "createIssue_input \<Rightarrow> bool" where
  "createIssue_schema i = (min1 (ci_campaignId i) \<and> min1 (ci_subjectLine i))"

definition createIssue_handler ::
  "createIssue_input \<Rightarrow> action_context \<Rightarrow> env \<Rightarrow> issue option reply action" where
  "createIssue_handler i ctx e =
     await (requireUser ctx) (\<lambda>u.
     await (getOwnedCampaign (ci_campaignId i) (user_id u)) (\<lambda>_.
     await (insert_into NewsletterIssues
        \<lparr>i_id = randomUUID e,
         i_campaignId = ci_campaignId i,
         i_userId = user_id u,
         i_issueNumber = ci_issueNumber i,
         i_subjectLine = ci_subjectLine i,
         i_preheaderText = ci_preheaderText i,
         i_status = ci_status i,
         i_scheduledAt = ci_scheduledAt i,
         i_sentAt = ci_sentAt i,
         i_createdAt = now e,
         i_updatedAt = now e\<rparr>) (\<lambda>returned.
     return_value (Reply True (Some (first_row returned))))))"

definition createIssue ::
  "createIssue_input \<Rightarrow> action_context \<Rightarrow> env \<Rightarrow> issue option reply action" where
  "createIssue = defineAction createIssue_schema createIssue_handler"

record updateIssue_input =
  ui_id :: string
  ui_campaignId :: string
  ui_issueNumber :: "number option"
  ui_subjectLine :: "string option"
  ui_preheaderText :: "string option"
  ui_status :: "string option"
  ui_scheduledAt :: "date option"
  ui_sentAt :: "date option"

definition updateIssue_schema :: "updateIssue_input \<Rightarrow> bool" where
  "updateIssue_schema i =
     ((min1 (ui_id i) \<and> min1 (ui_campaignId i)) \<and>
      (ui_issueNumber i \<noteq> None \<or> ui_subjectLine i \<noteq> None \<or> ui_preheaderText i \<noteq> None \<or>
       ui_status i \<noteq> None \<or> ui_scheduledAt i \<noteq> None \<or> ui_sentAt i \<noteq> None))"

definition updateIssue_set :: "updateIssue_input \<Rightarrow> env \<Rightarrow> issue \<Rightarrow> issue" where
  "updateIssue_set i e r =
     r\<lparr>i_issueNumber := patch_opt (ui_issueNumber i) (i_issueNumber r),
       i_subjectLine := patch (ui_subjectLine i) (i_subjectLine r),
       i_preheaderText := patch_opt (ui_preheaderText i) (i_preheaderText r),
       i_status := patch_opt (ui_status i) (i_status r),
       i_scheduledAt := patch_opt (ui_scheduledAt i) (i_scheduledAt r),
       i_sentAt := patch_opt (ui_sentAt i) (i_sentAt r),
       i_updatedAt := now e\<rparr>"

definition updateIssue_handler ::
  "updateIssue_input \<Rightarrow> action_context \<Rightarrow> env \<Rightarrow> issue option reply action" where
  "updateIssue_handler i ctx e =
     await (requireUser ctx) (\<lambda>u.
     await (getOwnedCampaign (ui_campaignId i) (user_id u)) (\<lambda>_.
     await (select_from NewsletterIssues
        (\<lambda>r. i_id r = ui_id i \<and> i_campaignId r = ui_campaignId i \<and> i_userId r = user_id u))
       (\<lambda>found.
     case first_row found of
       None \<Rightarrow> throw_error (ActionError NOT_FOUND ''Issue not found.'')
     | Some existing \<Rightarrow>
         await (update_where NewsletterIssues (updateIssue_set i e) (\<lambda>r. i_id r = ui_id i))
           (\<lambda>returned.
         return_value (Reply True (Some (first_row returned)))))))"

definition updateIssue ::
  "updateIssue_input \<Rightarrow> action_context \<Rightarrow> env \<Rightarrow> issue option reply action" where
  "updateIssue = defineAction updateIssue_schema updateIssue_handler"

record listIssues_input =
  li_campaignId :: string

definition listIssues_schema :: "listIssues_input \<Rightarrow> bool" where
  "listIssues_schema i = min1 (li_campaignId i)"

definition listIssues_handler ::
  "listIssues_input \<Rightarrow> action_context \<Rightarrow> env \<Rightarrow> issue listing reply action" where
  "listIssues_handler i ctx e =
     await (requireUser ctx) (\<lambda>u.
     await (getOwnedCampaign (li_campaignId i) (user_id u)) (\<lambda>_.
     await (select_from NewsletterIssues
        (\<lambda>r. i_campaignId r = li_campaignId i \<and> i_userId r = user_id u)) (\<lambda>issues.
     return_value (Reply True (Some \<lparr>items = issues, total = length issues\<rparr>)))))"

definition listIssues ::
  "listIssues_input \<Rightarrow> action_context \<Rightarrow> env \<Rightarrow> issue listing reply action" where
  "listIssues = defineAction listIssues_schema listIssues_handler"

subsection \<open>Block actions\<close>

record createBlock_input =
  cb_issueId :: string
  cb_orderIndex :: "int option"
  cb_blockType :: "string option"
  cb_heading :: "string option"
  cb_body :: "string option"
  cb_ctaLabel :: "string option"
  cb_ctaUrl :: "string option"
  cb_imageUrl :: "string option"
  cb_metaJson :: "string option"

definition createBlock_schema :: "createBlock_input \<Rightarrow> bool" where
  "createBlock_schema i = min1 (cb_issueId i)"

text \<open>\<^verbatim>\<open>x ?? y\<close>: \<open>y\<close> when \<open>x\<close> is absent.\<close>

definition nullish :: "'a option \<Rightarrow> 'a \<Rightarrow> 'a" where
  "nullish x y = (case x of None \<Rightarrow> y | Some v \<Rightarrow> v)"

definition createBlock_handler ::
  "createBlock_input \<Rightarrow> action_context \<Rightarrow> env \<Rightarrow> block option reply action" where
  "createBlock_handler i ctx e =
     await (requireUser ctx) (\<lambda>u.
     await (getOwnedIssue (cb_issueId i) (user_id u)) (\<lambda>owned.
     await (getOwnedCampaign (i_campaignId owned) (user_id u)) (\<lambda>_.
     await (insert_into NewsletterBlocks
        \<lparr>b_id = randomUUID e,
         b_issueId = cb_issueId i,
         b_orderIndex = nullish (cb_orderIndex i) 1,
         b_blockType = cb_blockType i,
         b_heading = cb_heading i,
         b_body = cb_body i,
         b_ctaLabel = cb_ctaLabel i,
         b_ctaUrl = cb_ctaUrl i,
         b_imageUrl = cb_imageUrl i,
         b_metaJson = cb_metaJson i,
         b_createdAt = now e\<rparr>) (\<lambda>returned.
     return_value (Reply True (Some (first_row returned)))))))"

definition createBlock ::
  "createBlock_input \<Rightarrow> action_context \<Rightarrow> env \<Rightarrow> block option reply action" where
  "createBlock = defineAction createBlock_schema createBlock_handler"

record updateBlock_input =
  ub_id :: string
  ub_issueId :: string
  ub_orderIndex :: "int option"
  ub_blockType :: "string option"
  ub_heading :: "string option"
  ub_body :: "string option"
  ub_ctaLabel :: "string option"
  ub_ctaUrl :: "string option"
  ub_imageUrl :: "string option"
  ub_metaJson :: "string option"

definition updateBlock_schema :: "updateBlock_input \<Rightarrow> bool" where
  "updateBlock_schema i =
     ((min1 (ub_id i) \<and> min1 (ub_issueId i)) \<and>
      (ub_orderIndex i \<noteq> None \<or> ub_blockType i \<noteq> None \<or> ub_heading i \<noteq> None \<or>
       ub_body i \<noteq> None \<or> ub_ctaLabel i \<noteq> None \<or> ub_ctaUrl i \<noteq> None \<or>
       ub_imageUrl i \<noteq> None \<or> ub_metaJson i \<noteq> None))"

definition updateBlock_set :: "updateBlock_input \<Rightarrow> block \<Rightarrow> block" where
  "updateBlock_set i r =
     r\<lparr>b_orderIndex := patch (ub_orderIndex i) (b_orderIndex r),
       b_blockType := patch_opt (ub_blockType i) (b_blockType r),
       b_heading := patch_opt (ub_heading i) (b_heading r),
       b_body := patch_opt (ub_body i) (b_body r),
       b_ctaLabel := patch_opt (ub_ctaLabel i) (b_ctaLabel r),
       b_ctaUrl := patch_opt (ub_ctaUrl i) (b_ctaUrl r),
       b_imageUrl := patch_opt (ub_imageUrl i) (b_imageUrl r),
       b_metaJson := patch_opt (ub_metaJson i) (b_metaJson r)\<rparr>"

definition updateBlock_handler ::
  "updateBlock_input \<Rightarrow> action_context \<Rightarrow> env \<Rightarrow> block option reply action" where
  "updateBlock_handler i ctx e =
     await (requireUser ctx) (\<lambda>u.
     await (getOwnedIssue (ub_issueId i) (user_id u)) (\<lambda>owned.
     await (getOwnedCampaign (i_campaignId owned) (user_id u)) (\<lambda>_.
     await (select_from NewsletterBlocks (\<lambda>r. b_id r = ub_id i \<and> b_issueId r = ub_issueId i))
       (\<lambda>found.
     case first_row found of
       None \<Rightarrow> throw_error (ActionError NOT_FOUND ''Block not found.'')
     | Some existing \<Rightarrow>
         await (update_where NewsletterBlocks (updateBlock_set i) (\<lambda>r. b_id r = ub_id i))
           (\<lambda>returned.
         return_value (Reply True (Some (first_row returned))))))))"

definition updateBlock ::
  "updateBlock_input \<Rightarrow> action_context \<Rightarrow> env \<Rightarrow> block option reply action" where
  "updateBlock = defineAction updateBlock_schema updateBlock_handler"

record deleteBlock_input =
  db_id :: string
  db_issueId :: string

definition deleteBlock_schema :: "deleteBlock_input \<Rightarrow> bool" where
  "deleteBlock_schema i = (min1 (db_id i) \<and> min1 (db_issueId i))"

definition deleteBlock_handler ::
  "deleteBlock_input \<Rightarrow> action_context \<Rightarrow> env \<Rightarrow> unit reply action" where
  "deleteBlock_handler i ctx e =
     await (requireUser ctx) (\<lambda>u.
     await (getOwnedIssue (db_issueId i) (user_id u)) (\<lambda>owned.
     await (getOwnedCampaign (i_campaignId owned) (user_id u)) (\<lambda>_.
     await (delete_where NewsletterBlocks (\<lambda>r. b_id r = db_id i \<and> b_issueId r = db_issueId i))
       (\<lambda>rowsAffected.
     if rowsAffected = 0 then throw_error (ActionError NOT_FOUND ''Block not found.'')
     else return_value (Reply True None)))))"

definition deleteBlock ::
  "deleteBlock_input \<Rightarrow> action_context \<Rightarrow> env \<Rightarrow> unit reply action" where
  "deleteBlock = defineAction deleteBlock_schema deleteBlock_handler"

record listBlocks_input =
  lb_issueId :: string

definition listBlocks_schema :: "listBlocks_input \<Rightarrow> bool" where
  "listBlocks_schema i = min1 (lb_issueId i)"

definition listBlocks_handler ::
  "listBlocks_input \<Rightarrow> action_context \<Rightarrow> env \<Rightarrow> block listing reply action" where
  "listBlocks_handler i ctx e =
     await (requireUser ctx) (\<lambda>u.
     await (getOwnedIssue (lb_issueId i) (user_id u)) (\<lambda>owned.
     await (getOwnedCampaign (i_campaignId owned) (user_id u)) (\<lambda>_.
     await (select_from NewsletterBlocks (\<lambda>r. b_issueId r = lb_issueId i)) (\<lambda>blocks.
     return_value (Reply True (Some \<lparr>items = blocks, total = length blocks\<rparr>))))))"

definition listBlocks ::
  "listBlocks_input \<Rightarrow> action_context \<Rightarrow> env \<Rightarrow> block listing reply action" where
  "listBlocks = defineAction listBlocks_schema listBlocks_handler"

subsection \<open>The store the schema and the actions maintain\<close>

text \<open>
  Each table's \<^verbatim>\<open>id\<close> is its primary key, so no two rows of a table share one; and an
  issue carries the owner of the campaign it references (its \<^verbatim>\<open>userId\<close> is
  "duplicated for easier queries"). Every action keeps a store of this kind so
  (proved at the end), and the empty store is one.
\<close>

definition wf_db :: "db \<Rightarrow> bool" where
  "wf_db d =
     (distinct (map c_id (campaignRows d)) \<and>
      distinct (map i_id (issueRows d)) \<and>
      distinct (map b_id (blockRows d)) \<and>
      (\<forall>i \<in> set (issueRows d). \<exists>c \<in> set (campaignRows d).
         c_id c = i_campaignId i \<and> c_userId c = i_userId i))"

subsection \<open>An example store\<close>

text \<open>
  Two users; alice owns two campaigns, one issue under the first and one block in that
  issue, bob owns one campaign. The theorems below are run on it.
\<close>

definition alice :: user where
  "alice = \<lparr>user_id = ''alice''\<rparr>"

definition bob :: user where
  "bob = \<lparr>user_id = ''bob''\<rparr>"

definition signed_in :: "user \<Rightarrow> action_context" where
  "signed_in u = \<lparr>locals = Some \<lparr>user = Some u\<rparr>\<rparr>"

definition anonymous :: action_context where
  "anonymous = \<lparr>locals = Some \<lparr>user = None\<rparr>\<rparr>"

definition env0 :: env where
  "env0 = \<lparr>randomUUID = ''id-9'', now = 2000\<rparr>"

definition campaign_a :: campaign where
  "campaign_a =
     \<lparr>c_id = ''c-a'', c_userId = ''alice'', c_name = ''Weekly Dev Tips'',
      c_description = Some ''Tips'', c_audienceDescription = None, c_senderName = None,
      c_senderEmail = None, c_defaultLanguage = Some ''en'',
      c_createdAt = 1000, c_updatedAt = 1000\<rparr>"

definition campaign_a2 :: campaign where
  "campaign_a2 =
     \<lparr>c_id = ''c-a2'', c_userId = ''alice'', c_name = ''Monthly Digest'',
      c_description = None, c_audienceDescription = None, c_senderName = None,
      c_senderEmail = None, c_defaultLanguage = None,
      c_createdAt = 1100, c_updatedAt = 1100\<rparr>"

definition campaign_b :: campaign where
  "campaign_b =
     \<lparr>c_id = ''c-b'', c_userId = ''bob'', c_name = ''Bob News'',
      c_description = None, c_audienceDescription = None, c_senderName = None,
      c_senderEmail = None, c_defaultLanguage = None,
      c_createdAt = 1200, c_updatedAt = 1200\<rparr>"

definition issue_a :: issue where
  "issue_a =
     \<lparr>i_id = ''i-a'', i_campaignId = ''c-a'', i_userId = ''alice'', i_issueNumber = Some 1,
      i_subjectLine = ''Issue 1'', i_preheaderText = None, i_status = Some ''draft'',
      i_scheduledAt = None, i_sentAt = None, i_createdAt = 1300, i_updatedAt = 1300\<rparr>"

definition block_a :: block where
  "block_a =
     \<lparr>b_id = ''b-a'', b_issueId = ''i-a'', b_orderIndex = 1, b_blockType = Some ''text'',
      b_heading = None, b_body = Some ''Hello'', b_ctaLabel = None, b_ctaUrl = None,
      b_imageUrl = None, b_metaJson = None, b_createdAt = 1400\<rparr>"

definition db0 :: db where
  "db0 =
     \<lparr>campaignRows = [campaign_a, campaign_a2, campaign_b],
      issueRows = [issue_a],
      blockRows = [block_a]\<rparr>"

text \<open>Update inputs that name their target and supply no field to change.\<close>

definition campaign_no_fields :: updateCampaign_input where
  "campaign_no_fields =
     \<lparr>uc_id = ''c-a'', uc_name = None, uc_description = None, uc_audienceDescription = None,
      uc_senderName = None, uc_senderEmail = None, uc_defaultLanguage = None\<rparr>"

definition issue_no_fields :: updateIssue_input where
  "issue_no_fields =
     \<lparr>ui_id = ''i-a'', ui_campaignId = ''c-a'', ui_issueNumber = None, ui_subjectLine = None,
      ui_preheaderText = None, ui_status = None, ui_scheduledAt = None, ui_sentAt = None\<rparr>"

definition block_no_fields :: updateBlock_input where
  "block_no_fields =
     \<lparr>ub_id = ''b-a'', ub_issueId = ''i-a'', ub_orderIndex = None, ub_blockType = None,
      ub_heading = None, ub_body = None, ub_ctaLabel = None, ub_ctaUrl = None,
      ub_imageUrl = None, ub_metaJson = None\<rparr>"

text \<open>Inputs that pass their schemas.\<close>

definition new_campaign :: createCampaign_input where
  "new_campaign =
     \<lparr>cc_name = ''Launch Notes'', cc_description = None, cc_audienceDescription = None,
      cc_senderName = None, cc_senderEmail = None, cc_defaultLanguage = None\<rparr>"

definition rename_campaign :: updateCampaign_input where
  "rename_campaign =
     \<lparr>uc_id = ''c-a'', uc_name = Some ''Dev Tips Weekly'', uc_description = None,
      uc_audienceDescription = None, uc_senderName = Some ''Ann'', uc_senderEmail = None,
      uc_defaultLanguage = None\<rparr>"

definition new_issue :: createIssue_input where
  "new_issue =
     \<lparr>ci_campaignId = ''c-a'', ci_issueNumber = None, ci_subjectLine = ''Issue 2'',
      ci_preheaderText = None, ci_status = None, ci_scheduledAt = None, ci_sentAt = None\<rparr>"

definition retitle_issue :: updateIssue_input where
  "retitle_issue =
     \<lparr>ui_id = ''i-a'', ui_campaignId = ''c-a'', ui_issueNumber = None,
      ui_subjectLine = Some ''Issue 1, final'', ui_preheaderText = None, ui_status = None,
      ui_scheduledAt = None, ui_sentAt = None\<rparr>"

definition new_block :: createBlock_input where
  "new_block =
     \<lparr>cb_issueId = ''i-a'', cb_orderIndex = None, cb_blockType = None, cb_heading = None,
      cb_body = None, cb_ctaLabel = None, cb_ctaUrl = None, cb_imageUrl = None,
      cb_metaJson = None\<rparr>"

definition head_block :: updateBlock_input where
  "head_block =
     \<lparr>ub_id = ''b-a'', ub_issueId = ''i-a'', ub_orderIndex = None, ub_blockType = None,
      ub_heading = Some ''Hi'', ub_body = None, ub_ctaLabel = None, ub_ctaUrl = None,
      ub_imageUrl = None, ub_metaJson = None\<rparr>"

definition drop_block :: deleteBlock_input where
  "drop_block = \<lparr>db_id = ''b-a'', db_issueId = ''i-a''\<rparr>"

text \<open>
  An update of alice's issue whose \<open>issueNumber\<close> is \<open>2 ^ 53\<close>, which \<^verbatim>\<open>z.number()\<close> accepts,
  and the store with that number written.
\<close>

definition big_issue_number :: updateIssue_input where
  "big_issue_number =
     \<lparr>ui_id = ''i-a'', ui_campaignId = ''c-a'', ui_issueNumber = Some 9007199254740992,
      ui_subjectLine = None, ui_preheaderText = None, ui_status = None,
      ui_scheduledAt = None, ui_sentAt = None\<rparr>"

definition db_big :: db where
  "db_big =
     db0\<lparr>issueRows := [issue_a\<lparr>i_issueNumber := Some 9007199254740992, i_updatedAt := 2000\<rparr>]\<rparr>"

section \<open>Properties\<close>

subsection \<open>Sequencing and statements\<close>

lemma table_simps:
  "rows NewsletterCampaigns = campaignRows"
  "put NewsletterCampaigns rs d = d\<lparr>campaignRows := rs\<rparr>"
  "primaryKey NewsletterCampaigns = c_id"
  "rows NewsletterIssues = issueRows"
  "put NewsletterIssues is d = d\<lparr>issueRows := is\<rparr>"
  "primaryKey NewsletterIssues = i_id"
  "rows NewsletterBlocks = blockRows"
  "put NewsletterBlocks bs d = d\<lparr>blockRows := bs\<rparr>"
  "primaryKey NewsletterBlocks = b_id"
  "readable NewsletterCampaigns = campaign_readable"
  "readable NewsletterIssues = issue_readable"
  "readable NewsletterBlocks = block_readable"
  by (simp_all add: NewsletterCampaigns_def NewsletterIssues_def NewsletterBlocks_def)

lemma campaigns_readable: "list_all campaign_readable xs"
  by (simp add: list_all_iff campaign_readable_def)

lemma first_row_filter_None: "(first_row (filter p xs) = None) = (\<not> (\<exists>x \<in> set xs. p x))"
  by (induction xs) (auto simp: first_row_def)

lemma first_row_filter_Some: "first_row (filter p xs) = Some x \<Longrightarrow> x \<in> set xs \<and> p x"
  by (induction xs) (auto simp: first_row_def split: if_splits)



lemma getOwnedCampaign_eq:
  "getOwnedCampaign cid uid d =
     (case first_row (filter (\<lambda>r. c_id r = cid \<and> c_userId r = uid) (campaignRows d)) of
        None \<Rightarrow> (Inl (ActionError NOT_FOUND ''Campaign not found.''), d)
      | Some c \<Rightarrow> (Inr c, d))"
  by (simp add: getOwnedCampaign_def await_def select_from_def table_simps throw_error_def
      return_value_def campaigns_readable split: option.splits)

lemma getOwnedIssue_eq:
  "getOwnedIssue iid uid d =
     (if list_all issue_readable (filter (\<lambda>r. i_id r = iid \<and> i_userId r = uid) (issueRows d))
      then
        (case first_row (filter (\<lambda>r. i_id r = iid \<and> i_userId r = uid) (issueRows d)) of
           None \<Rightarrow> (Inl (ActionError NOT_FOUND ''Newsletter issue not found.''), d)
         | Some c \<Rightarrow> (Inr c, d))
      else (Inl RangeError, d))"
  by (simp add: getOwnedIssue_def await_def select_from_def table_simps throw_error_def
      return_value_def split: option.splits)






subsection \<open>Each action as one equation\<close>

lemmas action_defs = defineAction_def await_def requireUser_def throw_error_def return_value_def
  select_from_def insert_into_def update_where_def delete_where_def table_simps
  getOwnedCampaign_eq getOwnedIssue_eq campaigns_readable campaign_readable_def

lemma createCampaign_eq:
  "createCampaign i ctx e d =
     (if \<not> createCampaign_schema i then (Inl ActionInputError, d)
      else case locals_user ctx of
        None \<Rightarrow> (Inl unauthorized, d)
      | Some u \<Rightarrow>
          if randomUUID e \<in> set (map c_id (campaignRows d)) then (Inl ConstraintError, d)
          else
            (Inr (Reply True (Some (Some
               \<lparr>c_id = randomUUID e, c_userId = user_id u, c_name = cc_name i,
                c_description = cc_description i,
                c_audienceDescription = cc_audienceDescription i,
                c_senderName = cc_senderName i, c_senderEmail = cc_senderEmail i,
                c_defaultLanguage = cc_defaultLanguage i,
                c_createdAt = now e, c_updatedAt = now e\<rparr>))),
             d\<lparr>campaignRows := campaignRows d @
               [\<lparr>c_id = randomUUID e, c_userId = user_id u, c_name = cc_name i,
                c_description = cc_description i,
                c_audienceDescription = cc_audienceDescription i,
                c_senderName = cc_senderName i, c_senderEmail = cc_senderEmail i,
                c_defaultLanguage = cc_defaultLanguage i,
                c_createdAt = now e, c_updatedAt = now e\<rparr>]\<rparr>))"
  by (simp add: createCampaign_def createCampaign_handler_def action_defs first_row_def
      split: option.splits)

lemma updateCampaign_eq:
  "updateCampaign i ctx e d =
     (if \<not> updateCampaign_schema i then (Inl ActionInputError, d)
      else case locals_user ctx of
        None \<Rightarrow> (Inl unauthorized, d)
      | Some u \<Rightarrow>
         (case first_row (filter (\<lambda>r. c_id r = uc_id i \<and> c_userId r = user_id u) (campaignRows d)) of
            None \<Rightarrow> (Inl (ActionError NOT_FOUND ''Campaign not found.''), d)
          | Some _ \<Rightarrow>
             (Inr (Reply True (Some (first_row
                (map (updateCampaign_set i e) (filter (\<lambda>r. c_id r = uc_id i) (campaignRows d)))))),
              d\<lparr>campaignRows :=
                 map (\<lambda>r. if c_id r = uc_id i then updateCampaign_set i e r else r) (campaignRows d)\<rparr>)))"
  by (simp add: updateCampaign_def updateCampaign_handler_def action_defs
      split: option.splits)

lemma listCampaigns_eq:
  "listCampaigns i ctx e d =
     (case locals_user ctx of
        None \<Rightarrow> (Inl unauthorized, d)
      | Some u \<Rightarrow>
          (Inr (Reply True (Some
             \<lparr>items = filter (\<lambda>r. c_userId r = user_id u) (campaignRows d),
              total = length (filter (\<lambda>r. c_userId r = user_id u) (campaignRows d))\<rparr>)), d))"
  by (simp add: listCampaigns_def listCampaigns_handler_def listCampaigns_schema_def action_defs
      split: option.splits)

lemma createIssue_eq:
  "createIssue i ctx e d =
     (if \<not> createIssue_schema i then (Inl ActionInputError, d)
      else case locals_user ctx of
        None \<Rightarrow> (Inl unauthorized, d)
      | Some u \<Rightarrow>
         (case first_row (filter (\<lambda>r. c_id r = ci_campaignId i \<and> c_userId r = user_id u) (campaignRows d)) of
            None \<Rightarrow> (Inl (ActionError NOT_FOUND ''Campaign not found.''), d)
          | Some _ \<Rightarrow>
             if randomUUID e \<in> set (map i_id (issueRows d)) then (Inl ConstraintError, d)
             else
              (if (case ci_issueNumber i of None \<Rightarrow> True | Some n \<Rightarrow> \<not> unsafe_integer n)
               then Inr (Reply True (Some (Some
                 \<lparr>i_id = randomUUID e, i_campaignId = ci_campaignId i, i_userId = user_id u,
                  i_issueNumber = ci_issueNumber i, i_subjectLine = ci_subjectLine i,
                  i_preheaderText = ci_preheaderText i, i_status = ci_status i,
                  i_scheduledAt = ci_scheduledAt i, i_sentAt = ci_sentAt i,
                  i_createdAt = now e, i_updatedAt = now e\<rparr>)))
               else Inl RangeError,
               d\<lparr>issueRows := issueRows d @
                 [\<lparr>i_id = randomUUID e, i_campaignId = ci_campaignId i, i_userId = user_id u,
                  i_issueNumber = ci_issueNumber i, i_subjectLine = ci_subjectLine i,
                  i_preheaderText = ci_preheaderText i, i_status = ci_status i,
                  i_scheduledAt = ci_scheduledAt i, i_sentAt = ci_sentAt i,
                  i_createdAt = now e, i_updatedAt = now e\<rparr>]\<rparr>)))"
  by (simp add: createIssue_def createIssue_handler_def action_defs first_row_def
      issue_readable_def split: option.splits)

lemma updateIssue_eq:
  "updateIssue i ctx e d =
     (if \<not> updateIssue_schema i then (Inl ActionInputError, d)
      else case locals_user ctx of
        None \<Rightarrow> (Inl unauthorized, d)
      | Some u \<Rightarrow>
         (case first_row (filter (\<lambda>r. c_id r = ui_campaignId i \<and> c_userId r = user_id u) (campaignRows d)) of
            None \<Rightarrow> (Inl (ActionError NOT_FOUND ''Campaign not found.''), d)
          | Some _ \<Rightarrow>
             if \<not> list_all issue_readable
                  (filter (\<lambda>r. i_id r = ui_id i \<and> i_campaignId r = ui_campaignId i \<and>
                       i_userId r = user_id u) (issueRows d))
             then (Inl RangeError, d)
             else
             (case first_row (filter (\<lambda>r. i_id r = ui_id i \<and> i_campaignId r = ui_campaignId i \<and>
                       i_userId r = user_id u) (issueRows d)) of
                None \<Rightarrow> (Inl (ActionError NOT_FOUND ''Issue not found.''), d)
              | Some _ \<Rightarrow>
                 (if list_all issue_readable
                       (map (updateIssue_set i e) (filter (\<lambda>r. i_id r = ui_id i) (issueRows d)))
                  then Inr (Reply True (Some (first_row
                    (map (updateIssue_set i e) (filter (\<lambda>r. i_id r = ui_id i) (issueRows d))))))
                  else Inl RangeError,
                  d\<lparr>issueRows :=
                     map (\<lambda>r. if i_id r = ui_id i then updateIssue_set i e r else r) (issueRows d)\<rparr>))))"
  by (simp add: updateIssue_def updateIssue_handler_def action_defs
      split: option.splits)

lemma listIssues_eq:
  "listIssues i ctx e d =
     (if \<not> listIssues_schema i then (Inl ActionInputError, d)
      else case locals_user ctx of
        None \<Rightarrow> (Inl unauthorized, d)
      | Some u \<Rightarrow>
         (case first_row (filter (\<lambda>r. c_id r = li_campaignId i \<and> c_userId r = user_id u) (campaignRows d)) of
            None \<Rightarrow> (Inl (ActionError NOT_FOUND ''Campaign not found.''), d)
          | Some _ \<Rightarrow>
            if list_all issue_readable
                 (filter (\<lambda>r. i_campaignId r = li_campaignId i \<and> i_userId r = user_id u) (issueRows d))
            then
            (Inr (Reply True (Some
               \<lparr>items = filter (\<lambda>r. i_campaignId r = li_campaignId i \<and> i_userId r = user_id u) (issueRows d),
                total = length (filter (\<lambda>r. i_campaignId r = li_campaignId i \<and> i_userId r = user_id u) (issueRows d))\<rparr>)), d)
            else (Inl RangeError, d)))"
  by (simp add: listIssues_def listIssues_handler_def action_defs
      split: option.splits)


lemma await_getOwnedIssue:
  "await (getOwnedIssue iid uid) f d =
     (case fst (getOwnedIssue iid uid d) of Inl er \<Rightarrow> (Inl er, d) | Inr x \<Rightarrow> f x d)"
  by (simp add: await_def getOwnedIssue_eq split: option.splits)

lemma getOwnedIssue_snd: "snd (getOwnedIssue iid uid d) = d"
  by (simp add: getOwnedIssue_eq split: option.splits)

lemma await_getOwnedCampaign:
  "await (getOwnedCampaign cid uid) f d =
     (case fst (getOwnedCampaign cid uid d) of Inl er \<Rightarrow> (Inl er, d) | Inr x \<Rightarrow> f x d)"
  by (simp add: await_def getOwnedCampaign_eq split: option.splits)

lemma await_requireUser:
  "await (requireUser ctx) f d =
     (case locals_user ctx of None \<Rightarrow> (Inl unauthorized, d) | Some u \<Rightarrow> f u d)"
  by (simp add: await_def requireUser_def throw_error_def return_value_def split: option.splits)

lemma await_select:
  "await (select_from t p) f d =
     (if list_all (readable t) (filter p (rows t d)) then f (filter p (rows t d)) d
      else (Inl RangeError, d))"
  by (simp add: await_def select_from_def)

lemma await_insert:
  "await (insert_into t r) f d =
     (if primaryKey t r \<in> set (map (primaryKey t) (rows t d)) then (Inl ConstraintError, d)
      else if readable t r then f [r] (put t (rows t d @ [r]) d)
      else (Inl RangeError, put t (rows t d @ [r]) d))"
  by (simp add: await_def insert_into_def)

lemma await_update:
  "await (update_where t s p) f d =
     (if list_all (readable t) (map s (filter p (rows t d)))
      then f (map s (filter p (rows t d)))
             (put t (map (\<lambda>r. if p r then s r else r) (rows t d)) d)
      else (Inl RangeError, put t (map (\<lambda>r. if p r then s r else r) (rows t d)) d))"
  by (simp add: await_def update_where_def)

lemma await_delete:
  "await (delete_where t p) f d =
     f (length (filter p (rows t d))) (put t (filter (\<lambda>r. \<not> p r) (rows t d)) d)"
  by (simp add: await_def delete_where_def)

lemmas await_simps = defineAction_def await_requireUser await_getOwnedIssue
  await_getOwnedCampaign await_select await_insert await_update await_delete
  throw_error_def return_value_def table_simps

lemma createBlock_eq:
  "createBlock i ctx e d =
     (if \<not> createBlock_schema i then (Inl ActionInputError, d)
      else case locals_user ctx of
        None \<Rightarrow> (Inl unauthorized, d)
      | Some u \<Rightarrow>
         (case fst (getOwnedIssue (cb_issueId i) (user_id u) d) of
            Inl er \<Rightarrow> (Inl er, d)
          | Inr owned \<Rightarrow>
             (case fst (getOwnedCampaign (i_campaignId owned) (user_id u) d) of
                Inl er \<Rightarrow> (Inl er, d)
              | Inr _ \<Rightarrow>
                 if randomUUID e \<in> set (map b_id (blockRows d)) then (Inl ConstraintError, d)
                 else
                  (if \<not> unsafe_integer
                          (of_int (case cb_orderIndex i of None \<Rightarrow> 1 | Some n \<Rightarrow> n))
                   then Inr (Reply True (Some (Some
                     \<lparr>b_id = randomUUID e, b_issueId = cb_issueId i,
                      b_orderIndex = (case cb_orderIndex i of None \<Rightarrow> 1 | Some n \<Rightarrow> n),
                      b_blockType = cb_blockType i, b_heading = cb_heading i,
                      b_body = cb_body i, b_ctaLabel = cb_ctaLabel i, b_ctaUrl = cb_ctaUrl i,
                      b_imageUrl = cb_imageUrl i, b_metaJson = cb_metaJson i,
                      b_createdAt = now e\<rparr>)))
                   else Inl RangeError,
                   d\<lparr>blockRows := blockRows d @
                     [\<lparr>b_id = randomUUID e, b_issueId = cb_issueId i,
                      b_orderIndex = (case cb_orderIndex i of None \<Rightarrow> 1 | Some n \<Rightarrow> n),
                      b_blockType = cb_blockType i, b_heading = cb_heading i,
                      b_body = cb_body i, b_ctaLabel = cb_ctaLabel i, b_ctaUrl = cb_ctaUrl i,
                      b_imageUrl = cb_imageUrl i, b_metaJson = cb_metaJson i,
                      b_createdAt = now e\<rparr>]\<rparr>))))"
  by (simp add: createBlock_def createBlock_handler_def await_simps nullish_def first_row_def
      block_readable_def split: option.splits sum.splits)

lemma updateBlock_eq:
  "updateBlock i ctx e d =
     (if \<not> updateBlock_schema i then (Inl ActionInputError, d)
      else case locals_user ctx of
        None \<Rightarrow> (Inl unauthorized, d)
      | Some u \<Rightarrow>
         (case fst (getOwnedIssue (ub_issueId i) (user_id u) d) of
            Inl er \<Rightarrow> (Inl er, d)
          | Inr owned \<Rightarrow>
             (case fst (getOwnedCampaign (i_campaignId owned) (user_id u) d) of
                Inl er \<Rightarrow> (Inl er, d)
              | Inr _ \<Rightarrow>
                 if \<not> list_all block_readable
                      (filter (\<lambda>r. b_id r = ub_id i \<and> b_issueId r = ub_issueId i) (blockRows d))
                 then (Inl RangeError, d)
                 else
                 (case first_row (filter (\<lambda>r. b_id r = ub_id i \<and> b_issueId r = ub_issueId i) (blockRows d)) of
                    None \<Rightarrow> (Inl (ActionError NOT_FOUND ''Block not found.''), d)
                  | Some _ \<Rightarrow>
                     (if list_all block_readable
                           (map (updateBlock_set i) (filter (\<lambda>r. b_id r = ub_id i) (blockRows d)))
                      then Inr (Reply True (Some (first_row
                        (map (updateBlock_set i) (filter (\<lambda>r. b_id r = ub_id i) (blockRows d))))))
                      else Inl RangeError,
                      d\<lparr>blockRows :=
                         map (\<lambda>r. if b_id r = ub_id i then updateBlock_set i r else r) (blockRows d)\<rparr>)))))"
  by (simp add: updateBlock_def updateBlock_handler_def await_simps
      split: option.splits sum.splits)

lemma deleteBlock_eq:
  "deleteBlock i ctx e d =
     (if \<not> deleteBlock_schema i then (Inl ActionInputError, d)
      else case locals_user ctx of
        None \<Rightarrow> (Inl unauthorized, d)
      | Some u \<Rightarrow>
         (case fst (getOwnedIssue (db_issueId i) (user_id u) d) of
            Inl er \<Rightarrow> (Inl er, d)
          | Inr owned \<Rightarrow>
             (case fst (getOwnedCampaign (i_campaignId owned) (user_id u) d) of
                Inl er \<Rightarrow> (Inl er, d)
              | Inr _ \<Rightarrow>
                 if length (filter (\<lambda>r. b_id r = db_id i \<and> b_issueId r = db_issueId i) (blockRows d)) = 0
                 then (Inl (ActionError NOT_FOUND ''Block not found.''),
                       d\<lparr>blockRows := filter (\<lambda>r. \<not> (b_id r = db_id i \<and> b_issueId r = db_issueId i)) (blockRows d)\<rparr>)
                 else (Inr (Reply True None),
                       d\<lparr>blockRows := filter (\<lambda>r. \<not> (b_id r = db_id i \<and> b_issueId r = db_issueId i)) (blockRows d)\<rparr>))))"
  by (simp add: deleteBlock_def deleteBlock_handler_def await_simps
      split: option.splits sum.splits)

lemma listBlocks_eq:
  "listBlocks i ctx e d =
     (if \<not> listBlocks_schema i then (Inl ActionInputError, d)
      else case locals_user ctx of
        None \<Rightarrow> (Inl unauthorized, d)
      | Some u \<Rightarrow>
         (case fst (getOwnedIssue (lb_issueId i) (user_id u) d) of
            Inl er \<Rightarrow> (Inl er, d)
          | Inr owned \<Rightarrow>
             (case fst (getOwnedCampaign (i_campaignId owned) (user_id u) d) of
                Inl er \<Rightarrow> (Inl er, d)
              | Inr _ \<Rightarrow>
                 if list_all block_readable (filter (\<lambda>r. b_issueId r = lb_issueId i) (blockRows d))
                 then
                 (Inr (Reply True (Some
                   \<lparr>items = filter (\<lambda>r. b_issueId r = lb_issueId i) (blockRows d),
                    total = length (filter (\<lambda>r. b_issueId r = lb_issueId i) (blockRows d))\<rparr>)), d)
                 else (Inl RangeError, d))))"
  by (simp add: listBlocks_def listBlocks_handler_def await_simps
      split: option.splits sum.splits)


lemmas example_defs = alice_def bob_def signed_in_def anonymous_def env0_def campaign_a_def
  campaign_a2_def campaign_b_def issue_a_def block_a_def db0_def campaign_no_fields_def
  issue_no_fields_def block_no_fields_def new_campaign_def rename_campaign_def new_issue_def
  retitle_issue_def new_block_def head_block_def drop_block_def big_issue_number_def db_big_def

lemmas schema_defs = createCampaign_schema_def updateCampaign_schema_def listCampaigns_schema_def
  createIssue_schema_def updateIssue_schema_def listIssues_schema_def createBlock_schema_def
  updateBlock_schema_def deleteBlock_schema_def listBlocks_schema_def min1_def optional_def

lemmas run_defs = createCampaign_eq updateCampaign_eq listCampaigns_eq createIssue_eq
  updateIssue_eq listIssues_eq createBlock_eq updateBlock_eq deleteBlock_eq listBlocks_eq
  getOwnedCampaign_eq getOwnedIssue_eq first_row_def locals_user_def schema_defs
  updateCampaign_set_def updateIssue_set_def updateBlock_set_def patch_def patch_opt_def
  issue_readable_def block_readable_def unsafe_integer_def example_defs

lemma wf_db0: "wf_db db0"
  by (simp add: wf_db_def example_defs)

subsection \<open>The ownership resolvers\<close>






subsection \<open>Listings\<close>



subsection \<open>Input validation and the guard\<close>

text \<open>
  Claim C4. An \<open>updateCampaign\<close>, \<open>updateIssue\<close> or \<open>updateBlock\<close> input in which every
  mutable field is absent is rejected with the input error, whoever calls and whatever the
  store holds, and the store is returned as it was: the handler, which holds every
  database statement, is not run.
\<close>

theorem empty_update_rejected:
  "(uc_name i1 = None \<and> uc_description i1 = None \<and> uc_audienceDescription i1 = None \<and>
    uc_senderName i1 = None \<and> uc_senderEmail i1 = None \<and> uc_defaultLanguage i1 = None \<longrightarrow>
    updateCampaign i1 ctx e d = (Inl ActionInputError, d) \<and>
    defineAction updateCampaign_schema h1 i1 ctx e d = (Inl ActionInputError, d)) \<and>
   (ui_issueNumber i2 = None \<and> ui_subjectLine i2 = None \<and> ui_preheaderText i2 = None \<and>
    ui_status i2 = None \<and> ui_scheduledAt i2 = None \<and> ui_sentAt i2 = None \<longrightarrow>
    updateIssue i2 ctx e d = (Inl ActionInputError, d) \<and>
    defineAction updateIssue_schema h2 i2 ctx e d = (Inl ActionInputError, d)) \<and>
   (ub_orderIndex i3 = None \<and> ub_blockType i3 = None \<and> ub_heading i3 = None \<and>
    ub_body i3 = None \<and> ub_ctaLabel i3 = None \<and> ub_ctaUrl i3 = None \<and>
    ub_imageUrl i3 = None \<and> ub_metaJson i3 = None \<longrightarrow>
    updateBlock i3 ctx e d = (Inl ActionInputError, d) \<and>
    defineAction updateBlock_schema h3 i3 ctx e d = (Inl ActionInputError, d))"
proof (intro conjI impI)
  assume a: "uc_name i1 = None \<and> uc_description i1 = None \<and> uc_audienceDescription i1 = None \<and>
    uc_senderName i1 = None \<and> uc_senderEmail i1 = None \<and> uc_defaultLanguage i1 = None"
  then have s: "\<not> updateCampaign_schema i1"
    by (simp add: updateCampaign_schema_def)
  show "updateCampaign i1 ctx e d = (Inl ActionInputError, d)"
    using s by (simp add: updateCampaign_eq)
  show "defineAction updateCampaign_schema h1 i1 ctx e d = (Inl ActionInputError, d)"
    using s by (simp add: defineAction_def throw_error_def)
next
  assume a: "ui_issueNumber i2 = None \<and> ui_subjectLine i2 = None \<and> ui_preheaderText i2 = None \<and>
    ui_status i2 = None \<and> ui_scheduledAt i2 = None \<and> ui_sentAt i2 = None"
  then have s: "\<not> updateIssue_schema i2"
    by (simp add: updateIssue_schema_def)
  show "updateIssue i2 ctx e d = (Inl ActionInputError, d)"
    using s by (simp add: updateIssue_eq)
  show "defineAction updateIssue_schema h2 i2 ctx e d = (Inl ActionInputError, d)"
    using s by (simp add: defineAction_def throw_error_def)
next
  assume a: "ub_orderIndex i3 = None \<and> ub_blockType i3 = None \<and> ub_heading i3 = None \<and>
    ub_body i3 = None \<and> ub_ctaLabel i3 = None \<and> ub_ctaUrl i3 = None \<and>
    ub_imageUrl i3 = None \<and> ub_metaJson i3 = None"
  then have s: "\<not> updateBlock_schema i3"
    by (simp add: updateBlock_schema_def)
  show "updateBlock i3 ctx e d = (Inl ActionInputError, d)"
    using s by (simp add: updateBlock_eq)
  show "defineAction updateBlock_schema h3 i3 ctx e d = (Inl ActionInputError, d)"
    using s by (simp add: defineAction_def throw_error_def)
qed

theorem empty_update_rejected_witness:
  "updateCampaign campaign_no_fields (signed_in alice) env0 db0 = (Inl ActionInputError, db0) \<and>
   updateIssue issue_no_fields (signed_in alice) env0 db0 = (Inl ActionInputError, db0) \<and>
   updateBlock block_no_fields (signed_in alice) env0 db0 = (Inl ActionInputError, db0)"
proof -
  have 1: "uc_name campaign_no_fields = None \<and> uc_description campaign_no_fields = None \<and>
    uc_audienceDescription campaign_no_fields = None \<and> uc_senderName campaign_no_fields = None \<and>
    uc_senderEmail campaign_no_fields = None \<and> uc_defaultLanguage campaign_no_fields = None"
    by (simp add: campaign_no_fields_def)
  have 2: "ui_issueNumber issue_no_fields = None \<and> ui_subjectLine issue_no_fields = None \<and>
    ui_preheaderText issue_no_fields = None \<and> ui_status issue_no_fields = None \<and>
    ui_scheduledAt issue_no_fields = None \<and> ui_sentAt issue_no_fields = None"
    by (simp add: issue_no_fields_def)
  have 3: "ub_orderIndex block_no_fields = None \<and> ub_blockType block_no_fields = None \<and>
    ub_heading block_no_fields = None \<and> ub_body block_no_fields = None \<and>
    ub_ctaLabel block_no_fields = None \<and> ub_ctaUrl block_no_fields = None \<and>
    ub_imageUrl block_no_fields = None \<and> ub_metaJson block_no_fields = None"
    by (simp add: block_no_fields_def)
  note t = empty_update_rejected [of campaign_no_fields "signed_in alice" env0 db0 _
      issue_no_fields _ block_no_fields]
  from t 1 have a: "updateCampaign campaign_no_fields (signed_in alice) env0 db0 = (Inl ActionInputError, db0)"
    by blast
  from t 2 have b: "updateIssue issue_no_fields (signed_in alice) env0 db0 = (Inl ActionInputError, db0)"
    by blast
  from t 3 have c: "updateBlock block_no_fields (signed_in alice) env0 db0 = (Inl ActionInputError, db0)"
    by blast
  from a b c show ?thesis by simp
qed

text \<open>
  Claim C1, as the code has it. With no authenticated user every action fails and returns
  the store as it was. The error is UNAUTHORIZED when the input passes the action's
  schema; an input that does not pass is rejected by \<open>defineAction\<close> with the input error
  before the handler, whose first statement is the guard, is run.
\<close>

theorem unauthenticated_rejected:
  assumes "locals_user ctx = None"
  shows
  "createCampaign i1 ctx e d =
     (Inl (if createCampaign_schema i1
           then ActionError UNAUTHORIZED ''You must be signed in to perform this action.''
           else ActionInputError), d) \<and>
   updateCampaign i2 ctx e d =
     (Inl (if updateCampaign_schema i2
           then ActionError UNAUTHORIZED ''You must be signed in to perform this action.''
           else ActionInputError), d) \<and>
   listCampaigns i3 ctx e d =
     (Inl (ActionError UNAUTHORIZED ''You must be signed in to perform this action.''), d) \<and>
   createIssue i4 ctx e d =
     (Inl (if createIssue_schema i4
           then ActionError UNAUTHORIZED ''You must be signed in to perform this action.''
           else ActionInputError), d) \<and>
   updateIssue i5 ctx e d =
     (Inl (if updateIssue_schema i5
           then ActionError UNAUTHORIZED ''You must be signed in to perform this action.''
           else ActionInputError), d) \<and>
   listIssues i6 ctx e d =
     (Inl (if listIssues_schema i6
           then ActionError UNAUTHORIZED ''You must be signed in to perform this action.''
           else ActionInputError), d) \<and>
   createBlock i7 ctx e d =
     (Inl (if createBlock_schema i7
           then ActionError UNAUTHORIZED ''You must be signed in to perform this action.''
           else ActionInputError), d) \<and>
   updateBlock i8 ctx e d =
     (Inl (if updateBlock_schema i8
           then ActionError UNAUTHORIZED ''You must be signed in to perform this action.''
           else ActionInputError), d) \<and>
   deleteBlock i9 ctx e d =
     (Inl (if deleteBlock_schema i9
           then ActionError UNAUTHORIZED ''You must be signed in to perform this action.''
           else ActionInputError), d) \<and>
   listBlocks i10 ctx e d =
     (Inl (if listBlocks_schema i10
           then ActionError UNAUTHORIZED ''You must be signed in to perform this action.''
           else ActionInputError), d)"
proof -
  have 1: "createCampaign i1 ctx e d =
     (Inl (if createCampaign_schema i1 then unauthorized else ActionInputError), d)"
    using assms by (simp add: createCampaign_eq)
  have 2: "updateCampaign i2 ctx e d =
     (Inl (if updateCampaign_schema i2 then unauthorized else ActionInputError), d)"
    using assms by (simp add: updateCampaign_eq)
  have 3: "listCampaigns i3 ctx e d = (Inl unauthorized, d)"
    using assms by (simp add: listCampaigns_eq)
  have 4: "createIssue i4 ctx e d =
     (Inl (if createIssue_schema i4 then unauthorized else ActionInputError), d)"
    using assms by (simp add: createIssue_eq)
  have 5: "updateIssue i5 ctx e d =
     (Inl (if updateIssue_schema i5 then unauthorized else ActionInputError), d)"
    using assms by (simp add: updateIssue_eq)
  have 6: "listIssues i6 ctx e d =
     (Inl (if listIssues_schema i6 then unauthorized else ActionInputError), d)"
    using assms by (simp add: listIssues_eq)
  have 7: "createBlock i7 ctx e d =
     (Inl (if createBlock_schema i7 then unauthorized else ActionInputError), d)"
    using assms by (simp add: createBlock_eq)
  have 8: "updateBlock i8 ctx e d =
     (Inl (if updateBlock_schema i8 then unauthorized else ActionInputError), d)"
    using assms by (simp add: updateBlock_eq)
  have 9: "deleteBlock i9 ctx e d =
     (Inl (if deleteBlock_schema i9 then unauthorized else ActionInputError), d)"
    using assms by (simp add: deleteBlock_eq)
  have 10: "listBlocks i10 ctx e d =
     (Inl (if listBlocks_schema i10 then unauthorized else ActionInputError), d)"
    using assms by (simp add: listBlocks_eq)
  from 1 2 3 4 5 6 7 8 9 10 show ?thesis by simp
qed

theorem unauthenticated_rejected_witness:
  "locals_user anonymous = None \<and>
   createCampaign new_campaign anonymous env0 db0 =
     (Inl (ActionError UNAUTHORIZED ''You must be signed in to perform this action.''), db0) \<and>
   updateCampaign rename_campaign anonymous env0 db0 =
     (Inl (ActionError UNAUTHORIZED ''You must be signed in to perform this action.''), db0) \<and>
   listCampaigns None anonymous env0 db0 =
     (Inl (ActionError UNAUTHORIZED ''You must be signed in to perform this action.''), db0) \<and>
   createIssue new_issue anonymous env0 db0 =
     (Inl (ActionError UNAUTHORIZED ''You must be signed in to perform this action.''), db0) \<and>
   updateIssue retitle_issue anonymous env0 db0 =
     (Inl (ActionError UNAUTHORIZED ''You must be signed in to perform this action.''), db0) \<and>
   listIssues \<lparr>li_campaignId = ''c-a''\<rparr> anonymous env0 db0 =
     (Inl (ActionError UNAUTHORIZED ''You must be signed in to perform this action.''), db0) \<and>
   createBlock new_block anonymous env0 db0 =
     (Inl (ActionError UNAUTHORIZED ''You must be signed in to perform this action.''), db0) \<and>
   updateBlock head_block anonymous env0 db0 =
     (Inl (ActionError UNAUTHORIZED ''You must be signed in to perform this action.''), db0) \<and>
   deleteBlock drop_block anonymous env0 db0 =
     (Inl (ActionError UNAUTHORIZED ''You must be signed in to perform this action.''), db0) \<and>
   listBlocks \<lparr>lb_issueId = ''i-a''\<rparr> anonymous env0 db0 =
     (Inl (ActionError UNAUTHORIZED ''You must be signed in to perform this action.''), db0) \<and>
   updateBlock block_no_fields anonymous env0 db0 = (Inl ActionInputError, db0)"
proof -
  have n: "locals_user anonymous = None"
    by (simp add: locals_user_def anonymous_def)
  have s: "createCampaign_schema new_campaign" "updateCampaign_schema rename_campaign"
    "createIssue_schema new_issue" "updateIssue_schema retitle_issue"
    "listIssues_schema \<lparr>li_campaignId = ''c-a''\<rparr>" "createBlock_schema new_block"
    "updateBlock_schema head_block" "deleteBlock_schema drop_block"
    "listBlocks_schema \<lparr>lb_issueId = ''i-a''\<rparr>" "\<not> updateBlock_schema block_no_fields"
    by (simp_all add: schema_defs example_defs)
  show ?thesis
    using n s
      unauthenticated_rejected [OF n, of new_campaign env0 db0 rename_campaign None new_issue
        retitle_issue "\<lparr>li_campaignId = ''c-a''\<rparr>" new_block head_block drop_block
        "\<lparr>lb_issueId = ''i-a''\<rparr>"]
      unauthenticated_rejected [OF n, of new_campaign env0 db0 rename_campaign None new_issue
        retitle_issue "\<lparr>li_campaignId = ''c-a''\<rparr>" new_block block_no_fields drop_block
        "\<lparr>lb_issueId = ''i-a''\<rparr>"]
    by simp
qed

text \<open>
  Claim C1 as stated fails where the input does not pass the schema: an anonymous
  \<open>updateCampaign\<close> that supplies no field is answered with the input error, not with
  UNAUTHORIZED.
\<close>

theorem unauthenticated_invalid_input_counterexample:
  "locals_user \<lparr>locals = Some \<lparr>user = None\<rparr>\<rparr> = None \<and>
   updateCampaign
     \<lparr>uc_id = ''c-a'', uc_name = None, uc_description = None, uc_audienceDescription = None,
      uc_senderName = None, uc_senderEmail = None, uc_defaultLanguage = None\<rparr>
     \<lparr>locals = Some \<lparr>user = None\<rparr>\<rparr> env0 db0 = (Inl ActionInputError, db0) \<and>
   fst (updateCampaign
     \<lparr>uc_id = ''c-a'', uc_name = None, uc_description = None, uc_audienceDescription = None,
      uc_senderName = None, uc_senderEmail = None, uc_defaultLanguage = None\<rparr>
     \<lparr>locals = Some \<lparr>user = None\<rparr>\<rparr> env0 db0)
     \<noteq> Inl (ActionError UNAUTHORIZED ''You must be signed in to perform this action.'')"
  by (simp add: updateCampaign_eq updateCampaign_schema_def locals_user_def)

subsection \<open>Creating issues and blocks\<close>






subsection \<open>Updates in place\<close>









lemma updateBlock_set_createdAt:
  "map b_createdAt (map (\<lambda>r. if p r then updateBlock_set i r else r) xs) = map b_createdAt xs"
  by (induction xs) (simp_all add: updateBlock_set_def)



subsection \<open>Re-fetching the issue, deleting a block\<close>

text \<open>
  Claim C8. Once the caller is authenticated, the input has passed the schema and the
  owned campaign is resolved, \<open>updateIssue\<close> looks for an issue with the input's id, the
  input's \<open>campaignId\<close> and the caller's \<open>userId\<close> at once. When no row has all three the
  action fails with the NOT_FOUND of the issue and the store is as it was; when one has,
  that is not the answer, so the three columns are all the re-fetch filters by.
\<close>

theorem updateIssue_refetch:
  assumes "locals_user ctx = Some u" and "updateIssue_schema i"
    and "\<exists>c \<in> set (campaignRows d). c_id c = ui_campaignId i \<and> c_userId c = user_id u"
  shows "(\<not> (\<exists>x \<in> set (issueRows d).
              i_id x = ui_id i \<and> i_campaignId x = ui_campaignId i \<and> i_userId x = user_id u) \<longrightarrow>
            updateIssue i ctx e d = (Inl (ActionError NOT_FOUND ''Issue not found.''), d)) \<and>
         ((\<exists>x \<in> set (issueRows d).
              i_id x = ui_id i \<and> i_campaignId x = ui_campaignId i \<and> i_userId x = user_id u) \<longrightarrow>
            fst (updateIssue i ctx e d) \<noteq> Inl (ActionError NOT_FOUND ''Issue not found.''))"
proof -
  let ?p = "\<lambda>r. i_id r = ui_id i \<and> i_campaignId r = ui_campaignId i \<and> i_userId r = user_id u"
  from assms(3) have
    "first_row (filter (\<lambda>r. c_id r = ui_campaignId i \<and> c_userId r = user_id u) (campaignRows d))
       \<noteq> None"
    using first_row_filter_None
      [of "\<lambda>r. c_id r = ui_campaignId i \<and> c_userId r = user_id u" "campaignRows d"]
    by blast
  then obtain c where c:
    "first_row (filter (\<lambda>r. c_id r = ui_campaignId i \<and> c_userId r = user_id u) (campaignRows d))
       = Some c"
    by blast
  have none: "\<not> (\<exists>x \<in> set (issueRows d). ?p x) \<longrightarrow>
      updateIssue i ctx e d = (Inl (ActionError NOT_FOUND ''Issue not found.''), d)"
  proof
    assume "\<not> (\<exists>x \<in> set (issueRows d). ?p x)"
    then have "filter ?p (issueRows d) = []"
      by (simp add: filter_empty_conv)
    with assms(1,2) c
    show "updateIssue i ctx e d = (Inl (ActionError NOT_FOUND ''Issue not found.''), d)"
      by (simp add: updateIssue_eq first_row_def)
  qed
  have some: "(\<exists>x \<in> set (issueRows d). ?p x) \<longrightarrow>
      fst (updateIssue i ctx e d) \<noteq> Inl (ActionError NOT_FOUND ''Issue not found.'')"
  proof
    assume "\<exists>x \<in> set (issueRows d). ?p x"
    then have "first_row (filter ?p (issueRows d)) \<noteq> None"
      using first_row_filter_None [of ?p "issueRows d"] by blast
    then obtain x where "first_row (filter ?p (issueRows d)) = Some x"
      by blast
    with assms(1,2) c
    show "fst (updateIssue i ctx e d) \<noteq> Inl (ActionError NOT_FOUND ''Issue not found.'')"
      by (simp add: updateIssue_eq)
  qed
  from none some show ?thesis by blast
qed

theorem updateIssue_refetch_witness:
  "locals_user (signed_in alice) = Some alice \<and>
   updateIssue_schema (retitle_issue\<lparr>ui_campaignId := ''c-a2''\<rparr>) \<and>
   c_id campaign_a2 = ''c-a2'' \<and> c_userId campaign_a2 = user_id alice \<and>
   i_id issue_a = ''i-a'' \<and> i_userId issue_a = user_id alice \<and> i_campaignId issue_a = ''c-a'' \<and>
   updateIssue (retitle_issue\<lparr>ui_campaignId := ''c-a2''\<rparr>) (signed_in alice) env0 db0 =
     (Inl (ActionError NOT_FOUND ''Issue not found.''), db0) \<and>
   fst (updateIssue retitle_issue (signed_in alice) env0 db0)
     \<noteq> Inl (ActionError NOT_FOUND ''Issue not found.'')"
proof -
  let ?i = "retitle_issue\<lparr>ui_campaignId := ''c-a2''\<rparr>"
  have u: "locals_user (signed_in alice) = Some alice"
    by (simp add: locals_user_def signed_in_def)
  have s: "updateIssue_schema ?i" "updateIssue_schema retitle_issue"
    by (simp_all add: schema_defs retitle_issue_def)
  have k: "c_id campaign_a2 = ''c-a2''" "c_userId campaign_a2 = user_id alice"
    "i_id issue_a = ''i-a''" "i_userId issue_a = user_id alice" "i_campaignId issue_a = ''c-a''"
    by (simp_all add: example_defs)
  have c2: "\<exists>c \<in> set (campaignRows db0). c_id c = ui_campaignId ?i \<and> c_userId c = user_id alice"
    by (simp add: example_defs)
  have c1: "\<exists>c \<in> set (campaignRows db0).
      c_id c = ui_campaignId retitle_issue \<and> c_userId c = user_id alice"
    by (simp add: example_defs)
  have no: "\<not> (\<exists>x \<in> set (issueRows db0).
      i_id x = ui_id ?i \<and> i_campaignId x = ui_campaignId ?i \<and> i_userId x = user_id alice)"
    by (simp add: example_defs)
  have yes: "\<exists>x \<in> set (issueRows db0).
      i_id x = ui_id retitle_issue \<and> i_campaignId x = ui_campaignId retitle_issue \<and>
      i_userId x = user_id alice"
    by (simp add: example_defs)
  from updateIssue_refetch [OF u s(1) c2, of env0] no
  have 1: "updateIssue ?i (signed_in alice) env0 db0 =
     (Inl (ActionError NOT_FOUND ''Issue not found.''), db0)"
    by blast
  from updateIssue_refetch [OF u s(2) c1, of env0] yes
  have 2: "fst (updateIssue retitle_issue (signed_in alice) env0 db0)
     \<noteq> Inl (ActionError NOT_FOUND ''Issue not found.'')"
    by blast
  from u s(1) k 1 2 show ?thesis by blast
qed







subsection \<open>The driver's error on the example store\<close>

text \<open>
  An \<open>orderIndex\<close> of \<open>2 ^ 53\<close> passes \<^verbatim>\<open>z.number().int()\<close>: the block is inserted and the
  action then fails reading it back. On the store that holds an unsafe \<open>issueNumber\<close>,
  which is well formed, the issue can no longer be listed, and a block of it can no longer
  be deleted: the resolver fails before the delete statement is reached.
\<close>

lemma createBlock_unsafe_orderIndex:
  "createBlock (new_block\<lparr>cb_orderIndex := Some 9007199254740992\<rparr>) (signed_in alice) env0 db0 =
     (Inl RangeError,
      db0\<lparr>blockRows := [block_a,
        \<lparr>b_id = ''id-9'', b_issueId = ''i-a'', b_orderIndex = 9007199254740992,
         b_blockType = None, b_heading = None, b_body = None, b_ctaLabel = None,
         b_ctaUrl = None, b_imageUrl = None, b_metaJson = None, b_createdAt = 2000\<rparr>]\<rparr>)"
  by (simp add: run_defs)

lemma unreadable_issue_blocks_its_actions:
  "wf_db db_big"
  "listIssues \<lparr>li_campaignId = ''c-a''\<rparr> (signed_in alice) env0 db_big = (Inl RangeError, db_big)"
  "deleteBlock drop_block (signed_in alice) env0 db_big = (Inl RangeError, db_big)"
  by (simp_all add: wf_db_def run_defs)

subsection \<open>The actions keep the store well formed\<close>

lemma wf_db_campaignRows:
  assumes "wf_db d" and "distinct (map c_id cs)"
    and "\<forall>c \<in> set (campaignRows d). \<exists>c' \<in> set cs. c_id c' = c_id c \<and> c_userId c' = c_userId c"
  shows "wf_db (d\<lparr>campaignRows := cs\<rparr>)"
proof -
  from assms(1) have a: "distinct (map i_id (issueRows d))" "distinct (map b_id (blockRows d))"
    and ch: "\<forall>i \<in> set (issueRows d). \<exists>c \<in> set (campaignRows d).
               c_id c = i_campaignId i \<and> c_userId c = i_userId i"
    by (simp_all add: wf_db_def)
  have "\<forall>i \<in> set (issueRows d). \<exists>c \<in> set cs. c_id c = i_campaignId i \<and> c_userId c = i_userId i"
  proof
    fix i assume "i \<in> set (issueRows d)"
    with ch obtain c where c: "c \<in> set (campaignRows d)" "c_id c = i_campaignId i"
      "c_userId c = i_userId i"
      by blast
    from assms(3) c(1) obtain c' where "c' \<in> set cs" "c_id c' = c_id c" "c_userId c' = c_userId c"
      by blast
    with c(2,3) show "\<exists>c \<in> set cs. c_id c = i_campaignId i \<and> c_userId c = i_userId i"
      by (intro bexI [of _ c']) simp_all
  qed
  with a assms(2) show ?thesis
    by (simp add: wf_db_def)
qed

lemma wf_db_issueRows:
  assumes "wf_db d" and "distinct (map i_id rs)"
    and "\<forall>i \<in> set rs. \<exists>c \<in> set (campaignRows d). c_id c = i_campaignId i \<and> c_userId c = i_userId i"
  shows "wf_db (d\<lparr>issueRows := rs\<rparr>)"
  using assms by (simp add: wf_db_def)

lemma wf_db_blockRows:
  assumes "wf_db d" and "distinct (map b_id bs)"
  shows "wf_db (d\<lparr>blockRows := bs\<rparr>)"
  using assms by (simp add: wf_db_def)

lemma map_key_update:
  "(\<And>r. k (s r) = k r) \<Longrightarrow> map k (map (\<lambda>r. if p r then s r else r) xs) = map k xs"
  by (induction xs) simp_all

lemma wf_db_createCampaign:
  assumes "wf_db d"
  shows "wf_db (snd (createCampaign i ctx e d))"
proof (cases "createCampaign_schema i \<and> randomUUID e \<notin> set (map c_id (campaignRows d))")
  case False
  then have "snd (createCampaign i ctx e d) = d"
    by (cases "locals_user ctx") (auto simp: createCampaign_eq)
  with assms show ?thesis by simp
next
  case True
  show ?thesis
  proof (cases "locals_user ctx")
    case None
    then have "snd (createCampaign i ctx e d) = d"
      by (simp add: createCampaign_eq)
    with assms show ?thesis by simp
  next
    case (Some u)
    define new where "new =
      \<lparr>c_id = randomUUID e, c_userId = user_id u, c_name = cc_name i,
       c_description = cc_description i, c_audienceDescription = cc_audienceDescription i,
       c_senderName = cc_senderName i, c_senderEmail = cc_senderEmail i,
       c_defaultLanguage = cc_defaultLanguage i, c_createdAt = now e, c_updatedAt = now e\<rparr>"
    from True Some
    have d': "snd (createCampaign i ctx e d) = d\<lparr>campaignRows := campaignRows d @ [new]\<rparr>"
      by (simp add: createCampaign_eq new_def)
    from assms True have 1: "distinct (map c_id (campaignRows d @ [new]))"
      by (simp add: wf_db_def new_def)
    have 2: "\<forall>c \<in> set (campaignRows d). \<exists>c' \<in> set (campaignRows d @ [new]).
        c_id c' = c_id c \<and> c_userId c' = c_userId c"
      by auto
    from wf_db_campaignRows [OF assms 1 2] d' show ?thesis by simp
  qed
qed

lemma wf_db_updateCampaign:
  assumes "wf_db d"
  shows "wf_db (snd (updateCampaign i ctx e d))"
proof -
  let ?cs = "map (\<lambda>r. if c_id r = uc_id i then updateCampaign_set i e r else r) (campaignRows d)"
  have k: "\<And>r. c_id (updateCampaign_set i e r) = c_id r"
    "\<And>r. c_userId (updateCampaign_set i e r) = c_userId r"
    by (simp_all add: updateCampaign_set_def)
  have km: "map c_id ?cs = map c_id (campaignRows d)"
    by (rule map_key_update) (rule k)
  have 1: "distinct (map c_id ?cs)"
    unfolding km using assms by (simp add: wf_db_def)
  have 2: "\<forall>c \<in> set (campaignRows d). \<exists>c' \<in> set ?cs. c_id c' = c_id c \<and> c_userId c' = c_userId c"
  proof
    fix c assume c: "c \<in> set (campaignRows d)"
    define c' where "c' = (if c_id c = uc_id i then updateCampaign_set i e c else c)"
    have "c' \<in> (\<lambda>r. if c_id r = uc_id i then updateCampaign_set i e r else r) ` set (campaignRows d)"
      unfolding c'_def using c by (rule imageI)
    then have m: "c' \<in> set ?cs"
      by (simp only: set_map)
    have "c_id c' = c_id c" "c_userId c' = c_userId c"
      by (simp_all add: c'_def k)
    with m show "\<exists>c' \<in> set ?cs. c_id c' = c_id c \<and> c_userId c' = c_userId c"
      by (intro bexI [of _ c']) simp_all
  qed
  from wf_db_campaignRows [OF assms 1 2] assms show ?thesis
    by (simp add: updateCampaign_eq split: option.splits)
qed

lemma wf_db_createIssue:
  assumes "wf_db d"
  shows "wf_db (snd (createIssue i ctx e d))"
proof (cases "createIssue_schema i \<and> randomUUID e \<notin> set (map i_id (issueRows d))")
  case False
  then have "snd (createIssue i ctx e d) = d"
    by (auto simp: createIssue_eq split: option.splits)
  with assms show ?thesis by simp
next
  case True
  show ?thesis
  proof (cases "locals_user ctx")
    case None
    then have "snd (createIssue i ctx e d) = d"
      by (simp add: createIssue_eq)
    with assms show ?thesis by simp
  next
    case (Some u)
    let ?found = "first_row (filter (\<lambda>r. c_id r = ci_campaignId i \<and> c_userId r = user_id u)
              (campaignRows d))"
    show ?thesis
    proof (cases ?found)
      case None
      with Some have "snd (createIssue i ctx e d) = d"
        by (simp add: createIssue_eq)
      with assms show ?thesis by simp
    next
      case c: (Some c)
      define new where "new =
        \<lparr>i_id = randomUUID e, i_campaignId = ci_campaignId i, i_userId = user_id u,
         i_issueNumber = ci_issueNumber i, i_subjectLine = ci_subjectLine i,
         i_preheaderText = ci_preheaderText i, i_status = ci_status i,
         i_scheduledAt = ci_scheduledAt i, i_sentAt = ci_sentAt i,
         i_createdAt = now e, i_updatedAt = now e\<rparr>"
      from True Some c
      have d': "snd (createIssue i ctx e d) = d\<lparr>issueRows := issueRows d @ [new]\<rparr>"
        by (simp add: createIssue_eq new_def)
      from first_row_filter_Some [OF c]
      have cin: "c \<in> set (campaignRows d)" "c_id c = i_campaignId new" "c_userId c = i_userId new"
        by (simp_all add: new_def)
      from assms True have 1: "distinct (map i_id (issueRows d @ [new]))"
        by (simp add: wf_db_def new_def)
      have old: "\<forall>x \<in> set (issueRows d). \<exists>c \<in> set (campaignRows d).
          c_id c = i_campaignId x \<and> c_userId c = i_userId x"
        using assms by (simp add: wf_db_def)
      have 2: "\<forall>x \<in> set (issueRows d @ [new]). \<exists>c \<in> set (campaignRows d).
          c_id c = i_campaignId x \<and> c_userId c = i_userId x"
      proof
        fix x assume "x \<in> set (issueRows d @ [new])"
        then have "x \<in> set (issueRows d) \<or> x = new" by auto
        then show "\<exists>c \<in> set (campaignRows d). c_id c = i_campaignId x \<and> c_userId c = i_userId x"
          using old cin by blast
      qed
      from wf_db_issueRows [OF assms 1 2] d' show ?thesis by simp
    qed
  qed
qed

lemma wf_db_updateIssue:
  assumes "wf_db d"
  shows "wf_db (snd (updateIssue i ctx e d))"
proof -
  let ?rs = "map (\<lambda>r. if i_id r = ui_id i then updateIssue_set i e r else r) (issueRows d)"
  have k: "\<And>r. i_id (updateIssue_set i e r) = i_id r"
    "\<And>r. i_userId (updateIssue_set i e r) = i_userId r"
    "\<And>r. i_campaignId (updateIssue_set i e r) = i_campaignId r"
    by (simp_all add: updateIssue_set_def)
  have km: "map i_id ?rs = map i_id (issueRows d)"
    by (rule map_key_update) (rule k)
  have 1: "distinct (map i_id ?rs)"
    unfolding km using assms by (simp add: wf_db_def)
  from assms have 2: "\<forall>x \<in> set ?rs. \<exists>c \<in> set (campaignRows d).
      c_id c = i_campaignId x \<and> c_userId c = i_userId x"
    by (auto simp: wf_db_def k)
  from wf_db_issueRows [OF assms 1 2] assms show ?thesis
    by (simp add: updateIssue_eq split: option.splits)
qed

lemma wf_db_createBlock:
  assumes "wf_db d"
  shows "wf_db (snd (createBlock i ctx e d))"
proof (cases "createBlock_schema i \<and> randomUUID e \<notin> set (map b_id (blockRows d))")
  case False
  then have "snd (createBlock i ctx e d) = d"
    by (auto simp: createBlock_eq split: option.splits sum.splits)
  with assms show ?thesis by simp
next
  case True
  show ?thesis
  proof (cases "locals_user ctx")
    case None
    then have "snd (createBlock i ctx e d) = d"
      by (simp add: createBlock_eq)
    with assms show ?thesis by simp
  next
    case (Some u)
    show ?thesis
    proof (cases "fst (getOwnedIssue (cb_issueId i) (user_id u) d)")
      case (Inl er)
      with Some have "snd (createBlock i ctx e d) = d"
        by (simp add: createBlock_eq)
      with assms show ?thesis by simp
    next
      case owned: (Inr owned)
      show ?thesis
      proof (cases "fst (getOwnedCampaign (i_campaignId owned) (user_id u) d)")
        case (Inl er)
        with Some owned have "snd (createBlock i ctx e d) = d"
          by (simp add: createBlock_eq)
        with assms show ?thesis by simp
      next
        case (Inr c)
        define new where "new =
          \<lparr>b_id = randomUUID e, b_issueId = cb_issueId i,
           b_orderIndex = (case cb_orderIndex i of None \<Rightarrow> 1 | Some n \<Rightarrow> n),
           b_blockType = cb_blockType i, b_heading = cb_heading i,
           b_body = cb_body i, b_ctaLabel = cb_ctaLabel i, b_ctaUrl = cb_ctaUrl i,
           b_imageUrl = cb_imageUrl i, b_metaJson = cb_metaJson i, b_createdAt = now e\<rparr>"
        from True Some owned Inr
        have d': "snd (createBlock i ctx e d) = d\<lparr>blockRows := blockRows d @ [new]\<rparr>"
          by (simp add: createBlock_eq new_def)
        from assms True have 1: "distinct (map b_id (blockRows d @ [new]))"
          by (simp add: wf_db_def new_def)
        from wf_db_blockRows [OF assms 1] d' show ?thesis by simp
      qed
    qed
  qed
qed

lemma wf_db_updateBlock:
  assumes "wf_db d"
  shows "wf_db (snd (updateBlock i ctx e d))"
proof -
  let ?bs = "map (\<lambda>r. if b_id r = ub_id i then updateBlock_set i r else r) (blockRows d)"
  have km: "map b_id ?bs = map b_id (blockRows d)"
    by (rule map_key_update) (simp add: updateBlock_set_def)
  have 1: "distinct (map b_id ?bs)"
    unfolding km using assms by (simp add: wf_db_def)
  from wf_db_blockRows [OF assms 1] assms show ?thesis
    by (simp add: updateBlock_eq split: option.splits sum.splits)
qed

lemma wf_db_deleteBlock:
  assumes "wf_db d"
  shows "wf_db (snd (deleteBlock i ctx e d))"
proof -
  let ?bs = "filter (\<lambda>r. \<not> (b_id r = db_id i \<and> b_issueId r = db_issueId i)) (blockRows d)"
  from assms have 1: "distinct (map b_id ?bs)"
    by (simp add: wf_db_def distinct_map_filter)
  from wf_db_blockRows [OF assms 1] assms show ?thesis
    by (simp add: deleteBlock_eq split: option.splits sum.splits)
qed

text \<open>
  Every action takes a well-formed store to a well-formed store, whatever it answers; the
  list actions do not write at all.
\<close>

theorem wf_db_preserved:
  assumes "wf_db d"
  shows "wf_db (snd (createCampaign i1 ctx e d)) \<and> wf_db (snd (updateCampaign i2 ctx e d)) \<and>
         snd (listCampaigns i3 ctx e d) = d \<and>
         wf_db (snd (createIssue i4 ctx e d)) \<and> wf_db (snd (updateIssue i5 ctx e d)) \<and>
         snd (listIssues i6 ctx e d) = d \<and>
         wf_db (snd (createBlock i7 ctx e d)) \<and> wf_db (snd (updateBlock i8 ctx e d)) \<and>
         wf_db (snd (deleteBlock i9 ctx e d)) \<and> snd (listBlocks i10 ctx e d) = d"
proof -
  have 3: "snd (listCampaigns i3 ctx e d) = d"
    by (simp add: listCampaigns_eq split: option.splits)
  have 6: "snd (listIssues i6 ctx e d) = d"
    by (simp add: listIssues_eq split: option.splits)
  have 10: "snd (listBlocks i10 ctx e d) = d"
    by (simp add: listBlocks_eq split: option.splits sum.splits)
  from assms 3 6 10 show ?thesis
    by (simp add: wf_db_createCampaign wf_db_updateCampaign wf_db_createIssue wf_db_updateIssue
        wf_db_createBlock wf_db_updateBlock wf_db_deleteBlock)
qed

theorem wf_db_preserved_witness:
  "wf_db db0 \<and> wf_db (snd (createCampaign new_campaign (signed_in alice) env0 db0)) \<and>
   wf_db (snd (createIssue new_issue (signed_in alice) env0 db0)) \<and>
   wf_db (snd (deleteBlock drop_block (signed_in alice) env0 db0)) \<and>
   wf_db \<lparr>campaignRows = [], issueRows = [], blockRows = []\<rparr>"
proof -
  have "wf_db \<lparr>campaignRows = [], issueRows = [], blockRows = []\<rparr>"
    by (simp add: wf_db_def)
  with wf_db0 wf_db_preserved [OF wf_db0, of new_campaign "signed_in alice" env0 _ _ new_issue
      _ _ _ _ drop_block]
  show ?thesis by blast
qed

end
